theory Spec2Isabelle
  imports Complex_Main "HOL-Library.AList"
begin

section \<open>The Render Engine: engine core, base object and billboard component\<close>

text \<open>
  A shallow embedding of \<^verbatim>\<open>R.Engine\<close> (the engine class), of the event bookkeeping of
  \<^verbatim>\<open>R.engine.BaseObject\<close> and of \<^verbatim>\<open>R.components.render.Billboard2D\<close>.

  The static engine object is a record that every engine function takes and returns.
  Calls that leave the engine (console, timers, shutdown callbacks, the rendering
  context, the metrics display) are appended to a trace, in the order the code makes
  them; the browser's timeout queue and clock are part of the state. What a called
  collaborator does in turn is its own code and not the engine's: the trace records that
  it was called. The one collaborator call whose effect on the engine a statement below
  depends on, the destructor that \<^verbatim>\<open>create\<close> calls, is a parameter of \<open>create\<close>.

  Times are whole milliseconds and counters are whole numbers, so they are \<open>int\<close>;
  values stay far below \<open>2^53\<close>, where JavaScript numbers are exact on integers and a
  quotient of two of them rounds as the exact quotient does. A method that can throw
  returns a completion next to the state it leaves.
\<close>

subsection \<open>Values, completions and the helpers of the debug package\<close>

datatype exn = AssertionError string | TypeError string

datatype 'a completion = Return 'a | Throw exn

text \<open>
  Modelled from the spec: \<^verbatim>\<open>Assert\<close> is defined outside the two source files. A failed
  assertion is a fatal programmer error that aborts at the call site (section 7 of the
  specification); a passed one does nothing.
\<close>

definition Assert :: "bool \<Rightarrow> string \<Rightarrow> exn option" where
  "Assert test msg = (if test then None else Some (AssertionError msg))"

text \<open>
  The result of a numeric expression that may leave the integers: dividing by a zero
  frame clock gives \<^verbatim>\<open>Infinity\<close> or \<^verbatim>\<open>NaN\<close> in JavaScript, never an exception.
\<close>

datatype jsnum = Num int | PosInfinity | NegInfinity | NaN

fun jsadd :: "jsnum \<Rightarrow> jsnum \<Rightarrow> jsnum" where
  "jsadd (Num a) (Num b) = Num (a + b)"
| "jsadd NaN _ = NaN"
| "jsadd _ NaN = NaN"
| "jsadd PosInfinity NegInfinity = NaN"
| "jsadd NegInfinity PosInfinity = NaN"
| "jsadd PosInfinity _ = PosInfinity"
| "jsadd _ PosInfinity = PosInfinity"
| "jsadd NegInfinity _ = NegInfinity"
| "jsadd _ NegInfinity = NegInfinity"

text \<open>\<^verbatim>\<open>Math.floor\<close> and \<^verbatim>\<open>Math.round\<close> (halves round up) on exact quotients.\<close>

definition Math_floor :: "real \<Rightarrow> int" where
  "Math_floor x = \<lfloor>x\<rfloor>"

definition Math_round :: "real \<Rightarrow> int" where
  "Math_round x = \<lfloor>x + 1 / 2\<rfloor>"

text \<open>\<^verbatim>\<open>Math.round(n / d)\<close> for whole numbers \<open>n\<close> and \<open>d\<close>.\<close>

definition round_quotient :: "int \<Rightarrow> int \<Rightarrow> jsnum" where
  "round_quotient n d =
     (if d = 0 then (if n = 0 then NaN else if 0 < n then PosInfinity else NegInfinity)
      else Num (Math_round (of_int n / of_int d)))"

subsection \<open>The engine state\<close>

datatype timer = Timer nat

datatype callback = Callback nat

datatype render_context = DocumentContext | CustomContext nat

datatype deferred = EngineTimerCall | ShutdownCall

datatype console_level = WARN | LOG | DEBUG | INFO

datatype event =
    Console console_level string
  | TimerRestart string timer
  | TimerPause string timer
  | TimerCancel string timer
  | CallbackInvoked callback
  | MetricDisplayRemove
  | DocumentContextCreate
  | ContextUpdate render_context int int
  | ContextDestroy render_context
  | ObjectPoolDump
  | MetricsUpdate
  | NativeFrameRequest
  | LoadEngineScripts
  | UnsupportedBrowserMessage

text \<open>
  A pooled object as the engine sees it: the two accessors the engine reads. Its
  \<^verbatim>\<open>destroy()\<close> method is code of the object, passed to \<open>create\<close> separately.
\<close>

datatype object_id = ObjectId string int

record pooled_object =
  getName :: string
  getId :: "object_id option"

text \<open>
  The fields of \<^verbatim>\<open>R.Engine\<close> in the order of the source, then the fields the methods
  add (\<^verbatim>\<open>_pauseTime\<close>, \<^verbatim>\<open>_stepOne\<close>, \<^verbatim>\<open>vObj\<close>, \<^verbatim>\<open>rObjs\<close>, \<^verbatim>\<open>metricDisplay\<close>, the script
  counters, \<^verbatim>\<open>globalTimer\<close>), the one option the timer reads and whether the metrics
  package is loaded. \<^verbatim>\<open>_pauseTime\<close> and \<^verbatim>\<open>_stepOne\<close> hold numbers from the first
  \<^verbatim>\<open>run()\<close> or \<^verbatim>\<open>pause()\<close> on; a \<^verbatim>\<open>step()\<close> before that reads an undefined
  \<^verbatim>\<open>_pauseTime\<close> and is outside the model. The last four fields are the environment: the
  browser's pending timeouts \<open>(handle, call, delay)\<close>, the next free handle, how often
  \<^verbatim>\<open>R.now()\<close> was read, and the trace. The timer pool is a JavaScript object used as a
  dictionary; it is an association list in insertion order, the order \<^verbatim>\<open>for..in\<close>
  visits it.
\<close>

record engine =
  idRef :: int
  timerPool :: "(string \<times> timer) list"
  livingObjects :: int
  fpsClock :: int
  FPS :: "int option"
  frameTime :: int
  defaultContext :: "render_context option"
  debugMode :: bool
  localMode :: bool
  started :: bool
  running :: bool
  shuttingDown :: bool
  upTime :: int
  downTime :: int
  skipFrames :: bool
  totalFrames :: int
  droppedFrames :: jsnum
  worldTime :: int
  lastTime :: int
  liveTime :: int
  shutdownCallbacks :: "callback list"
  pauseTime :: int
  stepOne :: int
  vObj :: int
  rObjs :: int
  metricDisplay :: bool
  loadedScripts :: "string list"
  scriptLoadCount :: int
  scriptsProcessed :: int
  globalTimer :: "nat option"
  nativeAnimationFrame :: bool
  metricsLoaded :: bool
  timeouts :: "(nat \<times> deferred \<times> int) list"
  nextHandle :: nat
  clockReads :: nat
  trace :: "event list"

text \<open>
  The engine as the class body declares it, before \<^verbatim>\<open>startup()\<close>; the two fields
  that \<^verbatim>\<open>run()\<close> creates start at 0.
\<close>

definition R_Engine :: engine where
  "R_Engine = \<lparr>
     idRef = 0, timerPool = [], livingObjects = 0,
     fpsClock = 16, FPS = None, frameTime = 0, defaultContext = None,
     debugMode = False, localMode = False,
     started = False, running = False, shuttingDown = False,
     upTime = 0, downTime = 0, skipFrames = True,
     totalFrames = 0, droppedFrames = Num 0,
     worldTime = 0, lastTime = 0, liveTime = 0,
     shutdownCallbacks = [],
     pauseTime = 0, stepOne = 0, vObj = 0, rObjs = 0,
     metricDisplay = False, loadedScripts = [], scriptLoadCount = 0, scriptsProcessed = 0,
     globalTimer = None, nativeAnimationFrame = False, metricsLoaded = False,
     timeouts = [], nextHandle = 0, clockReads = 0, trace = [] \<rparr>"

subsection \<open>Environment: console, clock and timeouts\<close>

definition emit :: "event \<Rightarrow> engine \<Rightarrow> engine" where
  "emit e s = s\<lparr>trace := trace s @ [e]\<rparr>"

definition console :: "console_level \<Rightarrow> string \<Rightarrow> engine \<Rightarrow> engine" where
  "console lvl msg s = emit (Console lvl msg) s"

text \<open>
  Modelled from the spec: \<^verbatim>\<open>AssertWarn\<close> is defined outside the two source files; a
  failed check is a non-fatal warning (sections 4.1 and 7).
\<close>

definition AssertWarn :: "bool \<Rightarrow> string \<Rightarrow> engine \<Rightarrow> engine" where
  "AssertWarn test msg s = (if test then s else console WARN msg s)"

text \<open>
  \<^verbatim>\<open>R.now()\<close>: the \<open>k\<close>-th reading of the clock is \<open>clk k\<close>; the state counts the
  readings taken so far.
\<close>

definition now :: "(nat \<Rightarrow> int) \<Rightarrow> engine \<Rightarrow> int \<times> engine" where
  "now clk s = (clk (clockReads s), s\<lparr>clockReads := Suc (clockReads s)\<rparr>)"

definition setTimeout :: "deferred \<Rightarrow> int \<Rightarrow> engine \<Rightarrow> nat \<times> engine" where
  "setTimeout call delay s =
     (nextHandle s,
      s\<lparr>timeouts := timeouts s @ [(nextHandle s, call, delay)],
        nextHandle := Suc (nextHandle s)\<rparr>)"

definition clearTimeout :: "nat option \<Rightarrow> engine \<Rightarrow> engine" where
  "clearTimeout h s = s\<lparr>timeouts := filter (\<lambda>t. Some (fst t) \<noteq> h) (timeouts s)\<rparr>"

subsection \<open>Engine properties\<close>

text \<open>
  \<^verbatim>\<open>setFPS(fps)\<close>, for a whole number of frames per second.
\<close>

definition setFPS :: "int \<Rightarrow> engine \<Rightarrow> unit completion \<times> engine" where
  "setFPS fps s =
     (case Assert (fps \<noteq> 0) ''You cannot have a framerate of zero!'' of
        Some e \<Rightarrow> (Throw e, s)
      | None \<Rightarrow> (Return (), s\<lparr>fpsClock := Math_floor (1000 / of_int fps), FPS := None\<rparr>))"

definition getFrameTime :: "engine \<Rightarrow> int" where
  "getFrameTime s = fpsClock s"

definition getDrawTime :: "engine \<Rightarrow> int" where
  "getDrawTime s = frameTime s"

definition getDebugMode :: "engine \<Rightarrow> bool" where
  "getDebugMode s = debugMode s"

definition getDefaultContext :: "engine \<Rightarrow> render_context \<times> engine" where
  "getDefaultContext s =
     (case defaultContext s of
        None \<Rightarrow> (DocumentContext,
                 (emit DocumentContextCreate s)\<lparr>defaultContext := Some DocumentContext\<rparr>)
      | Some c \<Rightarrow> (c, s))"

subsection \<open>Global object management\<close>

text \<open>
  \<^verbatim>\<open>create(obj)\<close>. The first argument is \<^verbatim>\<open>obj.destroy\<close>, the destructor of the candidate
  object, as the effect it has on the engine: it is the object's code, not the engine's,
  and a pooled object's destructor reports back to the engine through \<open>destroy\<close>. The
  identifier \<^verbatim>\<open>obj.getName() + idRef\<close> is kept as the pair of its two parts.
\<close>

definition create ::
  "(engine \<Rightarrow> engine) \<Rightarrow> pooled_object \<Rightarrow> engine \<Rightarrow> object_id option completion \<times> engine"
where
  "create obj_destroy obj s =
     (if shuttingDown s then
        (let s = console WARN
                   ''Engine shutting down, object destroyed because it would create an orphaned reference'' s;
             s = obj_destroy s
         in (Return None, s))
      else
        (case Assert (started s) ''Creating an object when the engine is stopped!'' of
           Some e \<Rightarrow> (Throw e, s)
         | None \<Rightarrow>
             (let s = s\<lparr>idRef := idRef s + 1\<rparr>;
                  objId = ObjectId (getName obj) (idRef s);
                  s = console LOG ''CREATED Object'' s;
                  s = s\<lparr>livingObjects := livingObjects s + 1\<rparr>
              in (Return (Some objId), s))))"

definition destroy :: "pooled_object option \<Rightarrow> engine \<Rightarrow> engine" where
  "destroy obj s =
     (case obj of
        None \<Rightarrow> console WARN ''NULL reference passed to Engine.destroy()!  Ignored.'' s
      | Some ob \<Rightarrow>
          (let s = console LOG ''DESTROYED Object'' s
           in s\<lparr>livingObjects := livingObjects s - 1\<rparr>))"

definition addTimer :: "string \<Rightarrow> timer \<Rightarrow> engine \<Rightarrow> engine" where
  "addTimer timerName tm s = s\<lparr>timerPool := AList.update timerName tm (timerPool s)\<rparr>"

definition removeTimer :: "string \<Rightarrow> engine \<Rightarrow> engine" where
  "removeTimer timerName s = s\<lparr>timerPool := AList.delete timerName (timerPool s)\<rparr>"

text \<open>
  \<^verbatim>\<open>for (var tm in R.Engine.timerPool) R.Engine.timerPool[tm].m()\<close>: one call per pooled
  timer, in the order of the pool.
\<close>

primrec forEachTimer ::
  "(string \<Rightarrow> timer \<Rightarrow> event) \<Rightarrow> (string \<times> timer) list \<Rightarrow> engine \<Rightarrow> engine"
where
  "forEachTimer m [] s = s"
| "forEachTimer m (p # ps) s = forEachTimer m ps (emit (m (fst p) (snd p)) s)"

subsection \<open>The world timer\<close>

definition doMetrics :: "engine \<Rightarrow> engine" where
  "doMetrics s = (if metricsLoaded s then emit MetricsUpdate s else s)"

text \<open>
  The body of \<^verbatim>\<open>if ((_stepOne == 1 || running) && getDefaultContext() != null)\<close> in
  \<^verbatim>\<open>engineTimer\<close>: one frame. It returns the delay of the next frame with the state.
  The traversal \<^verbatim>\<open>update(null, worldTime, worldTime - lastTime)\<close> belongs to the
  rendering context; its cost is what the clock shows afterwards.
\<close>

definition engineTimer_frame :: "(nat \<Rightarrow> int) \<Rightarrow> int \<Rightarrow> engine \<Rightarrow> int \<times> engine" where
  "engineTimer_frame clk nextFrame s =
     (let s = s\<lparr>vObj := 0\<rparr>;
          s = s\<lparr>rObjs := 0\<rparr>;
          (wt, s) = (if stepOne s = 1 then (pauseTime s, s) else now clk s);
          s = s\<lparr>worldTime := wt\<rparr>;
          s = s\<lparr>lastTime := (if stepOne s = 1 then worldTime s - fpsClock s else lastTime s)\<rparr>;
          (ctx, s) = getDefaultContext s;
          s = emit (ContextUpdate ctx (worldTime s) (worldTime s - lastTime s)) s;
          s = s\<lparr>lastTime := worldTime s\<rparr>;
          (t, s) = now clk s;
          s = s\<lparr>frameTime := t - worldTime s\<rparr>;
          s = (if stepOne s = 1 then s\<lparr>pauseTime := pauseTime s + frameTime s\<rparr> else s);
          s = s\<lparr>liveTime := worldTime s - upTime s\<rparr>;
          s = s\<lparr>totalFrames := totalFrames s + 1\<rparr>;
          f = nextFrame - frameTime s;
          nextFrame = (if skipFrames s then (if f > 0 then f else nextFrame) else fpsClock s);
          s = s\<lparr>droppedFrames :=
                  jsadd (droppedFrames s)
                    (if f \<le> 0 then round_quotient (f * - 1) (fpsClock s) else Num 0)\<rparr>;
          s = doMetrics s
      in (nextFrame, s))"

text \<open>
  \<^verbatim>\<open>engineTimer()\<close>. \<^verbatim>\<open>getDefaultContext()\<close> creates the context when there is none, so
  the right operand of \<^verbatim>\<open>&&\<close> is true whenever it is evaluated.
\<close>

definition engineTimer :: "(nat \<Rightarrow> int) \<Rightarrow> engine \<Rightarrow> engine" where
  "engineTimer clk s =
     (if shuttingDown s then s
      else if \<not> running s \<and> stepOne s = 0 then s
      else
        (let nextFrame = fpsClock s;
             (nextFrame, s) =
               (if stepOne s = 1 \<or> running s
                then engineTimer_frame clk nextFrame (snd (getDefaultContext s))
                else (nextFrame, s))
         in if stepOne s = 1 then s\<lparr>stepOne := 0\<rparr>
            else if nativeAnimationFrame s then emit NativeFrameRequest s
            else (let (h, s) = setTimeout EngineTimerCall nextFrame s
                  in s\<lparr>globalTimer := Some h\<rparr>)))"

subsection \<open>Engine process control\<close>

text \<open>
  \<^verbatim>\<open>browserSupportCheck()\<close>, from the query parameter \<^verbatim>\<open>disableBrowserCheck\<close> and the
  browser name that \<^verbatim>\<open>R.engine.Support.sysInfo()\<close> reports.
\<close>

definition browserSupportCheck :: "bool \<Rightarrow> string \<Rightarrow> engine \<Rightarrow> bool \<times> engine" where
  "browserSupportCheck disableBrowserCheck browser s =
     (if disableBrowserCheck then (True, s)
      else if browser \<in> set [''iPhone'', ''android'', ''msie'', ''chrome'', ''Wii'', ''safari'',
                              ''safarimobile'', ''mozilla'', ''firefox'', ''opera'']
      then (True, s)
      else (False, emit UnsupportedBrowserMessage (console WARN ''Unsupported Browser'' s)))"

text \<open>\<^verbatim>\<open>startup(debugMode)\<close>; the code never reads its argument.\<close>

definition startup ::
  "bool \<Rightarrow> string \<Rightarrow> (nat \<Rightarrow> int) \<Rightarrow> engine \<Rightarrow> bool completion \<times> engine"
where
  "startup disableBrowserCheck browser clk s =
     (case Assert (running s = False) ''An attempt was made to restart the engine!'' of
        Some e \<Rightarrow> (Throw e, s)
      | None \<Rightarrow>
          (let (supported, s) = browserSupportCheck disableBrowserCheck browser s
           in if \<not> supported then (Return False, s)
              else
                (let (t, s) = now clk s;
                     s = s\<lparr>upTime := t\<rparr>;
                     s = s\<lparr>started := True\<rparr>;
                     s = s\<lparr>totalFrames := 0\<rparr>;
                     s = emit LoadEngineScripts s
                 in (Return True, s))))"

definition run :: "(nat \<Rightarrow> int) \<Rightarrow> engine \<Rightarrow> engine" where
  "run clk s =
     (if shuttingDown s \<or> running s then s
      else
        (let s = forEachTimer TimerRestart (timerPool s) s;
             s = console WARN ''>>> Engine started. '' s;
             s = s\<lparr>running := True\<rparr>;
             s = s\<lparr>shuttingDown := False\<rparr>;
             s = console DEBUG ''>>> sysinfo: '' s;
             (t, s) = now clk s;
             s = s\<lparr>pauseTime := t\<rparr>;
             s = s\<lparr>stepOne := 0\<rparr>;
             (t, s) = now clk s;
             s = s\<lparr>lastTime := t - fpsClock s\<rparr>
         in engineTimer clk s))"

definition step :: "(nat \<Rightarrow> int) \<Rightarrow> engine \<Rightarrow> engine" where
  "step clk s =
     (if running s then s
      else engineTimer clk (s\<lparr>stepOne := 1\<rparr>))"

definition pause :: "(nat \<Rightarrow> int) \<Rightarrow> engine \<Rightarrow> engine" where
  "pause clk s =
     (if shuttingDown s then s
      else
        (let s = console DEBUG ''Pausing all timers'' s;
             s = forEachTimer TimerPause (timerPool s) s;
             s = console WARN ''>>> Engine paused <<<'' s;
             s = clearTimeout (globalTimer s) s;
             s = s\<lparr>running := False\<rparr>;
             (t, s) = now clk s
         in s\<lparr>pauseTime := t\<rparr>))"

definition onShutdown :: "callback \<Rightarrow> engine \<Rightarrow> engine" where
  "onShutdown fn s =
     (if shuttingDown s then s
      else s\<lparr>shutdownCallbacks := shutdownCallbacks s @ [fn]\<rparr>)"

text \<open>
  \<^verbatim>\<open>while (shutdownCallbacks.length > 0) { shutdownCallbacks.shift()(); }\<close>: the head
  leaves the queue, then it is called.
\<close>

function drainCallbacks :: "engine \<Rightarrow> engine" where
  "drainCallbacks s =
     (case shutdownCallbacks s of
        [] \<Rightarrow> s
      | fn # rest \<Rightarrow> drainCallbacks (emit (CallbackInvoked fn) (s\<lparr>shutdownCallbacks := rest\<rparr>)))"
  by pat_completeness auto
termination
  by (relation "measure (\<lambda>s. length (shutdownCallbacks s))") (auto simp: emit_def)

declare drainCallbacks.simps [simp del]

text \<open>
  \<^verbatim>\<open>shutdown()\<close> in three parts: from \<^verbatim>\<open>started = false\<close> to the stop of the world
  timer, the loop over the shutdown callbacks, and everything after that loop.
\<close>

definition shutdown_begin :: "engine \<Rightarrow> engine" where
  "shutdown_begin s =
     (let s = s\<lparr>started := False\<rparr>;
          s = console WARN ''>>> Engine shutting down...'' s
      in clearTimeout (globalTimer s) s)"

definition shutdown_finish :: "(nat \<Rightarrow> int) \<Rightarrow> engine \<Rightarrow> engine" where
  "shutdown_finish clk s =
     (let s = (if metricDisplay s then (emit MetricDisplayRemove s)\<lparr>metricDisplay := False\<rparr>
               else s);
          s = console DEBUG ''>>> Cancelling all timers'' s;
          s = forEachTimer TimerCancel (timerPool s) s;
          s = s\<lparr>timerPool := []\<rparr>;
          (t, s) = now clk s;
          s = s\<lparr>downTime := t\<rparr>;
          s = console WARN ''>>> Engine stopped.  Runtime: '' s;
          s = console WARN ''>>>   frames generated: '' s;
          s = s\<lparr>running := False\<rparr>;
          (ctx, s) = getDefaultContext s;
          s = emit (ContextDestroy ctx) s;
          s = emit ObjectPoolDump s;
          s = AssertWarn (livingObjects s = 0) ''Object references were not cleaned up!'' s;
          s = s\<lparr>loadedScripts := []\<rparr>;
          s = s\<lparr>scriptLoadCount := 0\<rparr>;
          s = s\<lparr>scriptsProcessed := 0\<rparr>;
          s = s\<lparr>defaultContext := None\<rparr>
      in s\<lparr>shuttingDown := False\<rparr>)"

definition shutdown :: "(nat \<Rightarrow> int) \<Rightarrow> engine \<Rightarrow> engine" where
  "shutdown clk s =
     (if shuttingDown s then s
      else
        (let s = s\<lparr>shuttingDown := True\<rparr>
         in if \<not> running s \<and> started s
            then (let s = s\<lparr>running := True\<rparr>
                  in snd (setTimeout ShutdownCall (fpsClock s * 2) s))
            else shutdown_finish clk (drainCallbacks (shutdown_begin s))))"

text \<open>
  The browser runs a pending timeout: the entry leaves the queue and its call is made.
\<close>

definition fire :: "(nat \<Rightarrow> int) \<Rightarrow> nat \<Rightarrow> engine \<Rightarrow> engine" where
  "fire clk h s =
     (case find (\<lambda>t. fst t = h) (timeouts s) of
        None \<Rightarrow> s
      | Some t \<Rightarrow>
          (let s = s\<lparr>timeouts := filter (\<lambda>u. fst u \<noteq> h) (timeouts s)\<rparr>
           in case fst (snd t) of
                EngineTimerCall \<Rightarrow> engineTimer clk s
              | ShutdownCall \<Rightarrow> shutdown clk s))"

subsection \<open>Event bookkeeping of the base object\<close>

text \<open>
  The values \<^verbatim>\<open>addEvent\<close> is called with: a function, some other data (an array), or
  nothing. Functions and arrays are truthy, \<^verbatim>\<open>undefined\<close> is not.
\<close>

datatype jsval = Undefined | Function nat | DataValue nat

fun truthy :: "jsval \<Rightarrow> bool" where
  "truthy Undefined = False"
| "truthy (Function k) = True"
| "truthy (DataValue k) = True"

fun isFunction :: "jsval \<Rightarrow> bool" where
  "isFunction (Function k) = True"
| "isFunction v = False"

definition js_or :: "jsval \<Rightarrow> jsval \<Rightarrow> jsval" where
  "js_or a b = (if truthy a then a else b)"

datatype node = DocumentBody | Element nat

datatype handler_call =
    ConsoleInfo string
  | SetHandler node string jsval jsval
  | ClearHandler node string jsval

text \<open>
  A base object between its constructor (\<^verbatim>\<open>events = {}\<close>) and its release: its
  element, its \<^verbatim>\<open>events\<close> dictionary and the calls it has made to the console and to
  \<^verbatim>\<open>R.engine.Events\<close>. Reading a key the dictionary does not have gives \<^verbatim>\<open>undefined\<close>.
  An owner is given by the name its \<^verbatim>\<open>getName()\<close> returns; \<open>None\<close> is the \<^verbatim>\<open>null\<close> owner.
\<close>

record base_object =
  element :: "node option"
  events :: "string \<rightharpoonup> jsval"
  handlerCalls :: "handler_call list"

definition setElement :: "node option \<Rightarrow> base_object \<Rightarrow> base_object" where
  "setElement el b = b\<lparr>element := el\<rparr>"

definition getElement :: "base_object \<Rightarrow> node option" where
  "getElement b = element b"

definition handlerCall :: "handler_call \<Rightarrow> base_object \<Rightarrow> base_object" where
  "handlerCall c b = b\<lparr>handlerCalls := handlerCalls b @ [c]\<rparr>"

definition eventsGet :: "base_object \<Rightarrow> string \<Rightarrow> jsval" where
  "eventsGet b k = (case events b k of None \<Rightarrow> Undefined | Some v \<Rightarrow> v)"

text \<open>
  \<^verbatim>\<open>addEvent(ref, type, data, fn)\<close>. In the branch of the \<^verbatim>\<open>null\<close> owner the variable
  \<^verbatim>\<open>func\<close> is read before the other branch assigns it: \<^verbatim>\<open>var\<close> is hoisted, so the
  value stored is \<^verbatim>\<open>undefined\<close>.
\<close>

definition addEvent ::
  "string option \<Rightarrow> string \<Rightarrow> jsval \<Rightarrow> jsval \<Rightarrow> base_object \<Rightarrow> base_object"
where
  "addEvent ref evType data fn b =
     (case ref of
        None \<Rightarrow>
          (let b = handlerCall (ConsoleInfo ''Global assignment of event'') b;
               b = handlerCall (SetHandler DocumentBody evType (js_or data fn) fn) b
           in b\<lparr>events := (events b)(''document,'' @ evType \<mapsto> Undefined)\<rparr>)
      | Some refName \<Rightarrow>
          (case getElement b of
             None \<Rightarrow> b
           | Some el \<Rightarrow>
               (let b = handlerCall (ConsoleInfo ''attach event'') b;
                    b = handlerCall (SetHandler el evType (js_or data fn) fn) b;
                    func = (if isFunction data then data else fn)
                in b\<lparr>events := (events b)(refName @ '','' @ evType \<mapsto> func)\<rparr>)))"

definition removeEvent :: "string option \<Rightarrow> string \<Rightarrow> base_object \<Rightarrow> base_object" where
  "removeEvent ref evType b =
     (case ref of
        None \<Rightarrow>
          (let b = handlerCall (ConsoleInfo ''Global event removed'') b;
               fn = eventsGet b (''document,'' @ evType)
           in handlerCall (ClearHandler DocumentBody evType fn) b)
      | Some refName \<Rightarrow>
          (case getElement b of
             None \<Rightarrow> b
           | Some el \<Rightarrow>
               (let fn = eventsGet b (refName @ '','' @ evType);
                    b = (if truthy fn
                         then handlerCall (ClearHandler el evType fn)
                                (handlerCall (ConsoleInfo ''remove event'') b)
                         else b)
                in b\<lparr>events := (events b)(refName @ '','' @ evType := None)\<rparr>)))"

subsection \<open>The billboard component\<close>

datatype draw_mode = REDRAW | NORMAL

record rectangle =
  rect_x :: int
  rect_y :: int
  rect_w :: int
  rect_h :: int

record point2d =
  point_x :: int
  point_y :: int

text \<open>The game object that hosts the component: what the component reads from it.\<close>

record game_object =
  boundingBox :: rectangle
  origin :: point2d

text \<open>The \<^verbatim>\<open>img\<close> element behind \<^verbatim>\<open>this.billboard\<close> with the attributes the component sets.\<close>

record image =
  img_src :: string
  img_width :: int
  img_height :: int

datatype component_class = RenderClass | TextRendererClass | OtherClass

record render_component =
  componentName :: string
  componentClass :: component_class

datatype render_call =
    BaseConstructor string real
  | MarkDirty
  | PointCreate point2d
  | RenderComponentToImage "render_component option" int int point2d
  | TransformOrigin bool
  | DrawImage rectangle image
  | SetLineStyle string
  | DrawRectangle rectangle
  | PointDestroy

text \<open>
  The instance fields of the class body, the game object the inherited
  \<^verbatim>\<open>getGameObject()\<close> returns, and the calls the component has made to its base class, its
  host and the rendering context.
\<close>

record billboard2d =
  billboard :: "image option"
  mode :: "draw_mode option"
  renderComponent :: "render_component option"
  hostRect :: "rectangle option"
  gameObject :: "game_object option"
  renderCalls :: "render_call list"

definition renderCall :: "render_call \<Rightarrow> billboard2d \<Rightarrow> billboard2d" where
  "renderCall c b = b\<lparr>renderCalls := renderCalls b @ [c]\<rparr>"

text \<open>An instance as the class body declares it, before its constructor has run.\<close>

definition Billboard2D_prototype :: billboard2d where
  "Billboard2D_prototype =
     \<lparr>billboard = None, mode = None, renderComponent = None, hostRect = None,
      gameObject = None, renderCalls = []\<rparr>"

text \<open>
  The constructor, on a new or a pooled instance. \<^verbatim>\<open>priority || 0.1\<close> replaces a missing
  or zero priority.
\<close>

definition Billboard2D_constructor ::
  "string \<Rightarrow> render_component \<Rightarrow> real option \<Rightarrow> billboard2d \<Rightarrow> unit completion \<times> billboard2d"
where
  "Billboard2D_constructor name rc priority b =
     (case Assert (componentClass rc = RenderClass \<or> componentClass rc = TextRendererClass)
             ''Attempt to assign a non-render component to a billboard component'' of
        Some e \<Rightarrow> (Throw e, b)
      | None \<Rightarrow>
          (let b = renderCall
                     (BaseConstructor name
                        (case priority of None \<Rightarrow> 1 / 10
                         | Some p \<Rightarrow> if p = 0 then 1 / 10 else p)) b;
               b = b\<lparr>mode := Some REDRAW\<rparr>;
               b = b\<lparr>renderComponent := Some rc\<rparr>
           in (Return (), b)))"

text \<open>
  \<^verbatim>\<open>regenerate()\<close>. Without a game object the call of \<^verbatim>\<open>markDirty\<close> on \<^verbatim>\<open>null\<close> throws,
  after the two assignments.
\<close>

definition regenerate :: "billboard2d \<Rightarrow> unit completion \<times> billboard2d" where
  "regenerate b =
     (let b = b\<lparr>mode := Some REDRAW\<rparr>;
          b = b\<lparr>hostRect := None\<rparr>
      in case gameObject b of
           None \<Rightarrow> (Throw (TypeError ''getGameObject() is null''), b)
         | Some host \<Rightarrow> (Return (), renderCall MarkDirty b))"

text \<open>
  What one call of \<^verbatim>\<open>execute\<close> meets outside the component: the result of the inherited
  \<^verbatim>\<open>execute\<close> (\<^verbatim>\<open>this.base(renderContext, time, dt)\<close>), the data URL that
  \<^verbatim>\<open>R.util.RenderUtil.renderComponentToImage\<close> returns, whether \<^verbatim>\<open>drawImage\<close> of the
  rendering context throws, and \<^verbatim>\<open>R.Engine.getDebugMode()\<close>.
\<close>

record draw_env =
  baseExecute :: bool
  snapshotUrl :: string
  drawImageThrows :: bool
  engineDebugMode :: bool

text \<open>
  \<^verbatim>\<open>execute(renderContext, time, dt)\<close>. Inside \<^verbatim>\<open>try\<close>, reading \<^verbatim>\<open>this.billboard[0]\<close>
  of a missing billboard throws as well; the empty \<^verbatim>\<open>catch\<close> swallows both failures.
  The other calls to the host, the point and the rendering context are taken to return
  normally.
\<close>

definition execute :: "draw_env \<Rightarrow> billboard2d \<Rightarrow> unit completion \<times> billboard2d" where
  "execute env b =
     (if \<not> baseExecute env then (Return (), b)
      else
        (case gameObject b of
           None \<Rightarrow> (Throw (TypeError ''getGameObject() is null''), b)
         | Some host \<Rightarrow>
             (let hostBox = boundingBox host;
                  b = renderCall (PointCreate (origin host)) b;
                  b = (if mode b = Some REDRAW then
                         (let b = (if billboard b = None
                                   then b\<lparr>billboard :=
                                            Some \<lparr>img_src = [], img_width = 0, img_height = 0\<rparr>\<rparr>
                                   else b);
                              b = renderCall
                                    (RenderComponentToImage (renderComponent b)
                                       (rect_w hostBox) (rect_h hostBox) (origin host)) b;
                              b = b\<lparr>billboard :=
                                      Some \<lparr>img_src = snapshotUrl env,
                                            img_width = rect_w hostBox,
                                            img_height = rect_h hostBox\<rparr>\<rparr>
                          in b\<lparr>mode := Some NORMAL\<rparr>)
                       else b);
                  b = renderCall (TransformOrigin True) b;
                  b = (case billboard b of
                         None \<Rightarrow> b
                       | Some img \<Rightarrow>
                           if drawImageThrows env then b
                           else renderCall (DrawImage (boundingBox host) img) b);
                  b = (if engineDebugMode env
                       then renderCall (DrawRectangle (boundingBox host))
                              (renderCall (SetLineStyle ''green'') b)
                       else b);
                  b = renderCall (TransformOrigin False) b;
                  b = renderCall PointDestroy b
              in (Return (), b))))"

section \<open>Vocabulary of the statements and example inputs\<close>

text \<open>The two kinds of call that the shutdown order is about.\<close>

fun is_callback_or_cancel :: "event \<Rightarrow> bool" where
  "is_callback_or_cancel (CallbackInvoked fn) = True"
| "is_callback_or_cancel (TimerCancel n t) = True"
| "is_callback_or_cancel _ = False"

text \<open>
  Modelled from the spec: \<^verbatim>\<open>R.engine.PooledObject\<close> is outside the two source files. The
  registry is invoked by the managed objects' own constructors and destructors (section
  2 of the specification): the destructor of a pooled object reports to the engine with
  \<^verbatim>\<open>R.Engine.destroy(this)\<close>.
\<close>

definition reporting_destructor :: "pooled_object \<Rightarrow> engine \<Rightarrow> engine" where
  "reporting_destructor obj s = destroy (Some obj) s"

text \<open>A clock on which every frame costs 40 ms, and one that advances 5 ms per reading.\<close>

definition slow_frame_clock :: "nat \<Rightarrow> int" where
  "slow_frame_clock k = 1000 + 40 * int k"

definition session_clock :: "nat \<Rightarrow> int" where
  "session_clock k = 1000 + 5 * int k"

text \<open>Engines in the states the statements are tried on.\<close>

definition running_engine :: engine where
  "running_engine = R_Engine\<lparr>started := True, running := True\<rparr>"

definition started_engine :: engine where
  "started_engine = R_Engine\<lparr>started := True, livingObjects := 3, idRef := 7\<rparr>"

definition stopping_engine :: engine where
  "stopping_engine =
     R_Engine\<lparr>started := True, running := True, shuttingDown := True, livingObjects := 3\<rparr>"

definition busy_engine :: engine where
  "busy_engine =
     addTimer ''spawn'' (Timer 2) (addTimer ''blink'' (Timer 1)
       (R_Engine\<lparr>started := True, running := True\<rparr>))"

text \<open>
  An engine that was started with one shutdown callback and one timer, ran one frame
  and was paused.
\<close>

definition paused_engine :: engine where
  "paused_engine =
     pause session_clock
       (run session_clock
         (addTimer ''blink'' (Timer 1)
           (onShutdown (Callback 1)
             (snd (startup False ''firefox'' session_clock R_Engine)))))"

text \<open>An engine inside \<^verbatim>\<open>shutdown()\<close>, about to run its shutdown callbacks.\<close>

definition draining_engine :: engine where
  "draining_engine =
     shutdown_begin
       (R_Engine\<lparr>started := True, running := True, shuttingDown := True,
                 shutdownCallbacks := [Callback 1]\<rparr>)"

definition late_object :: pooled_object where
  "late_object = \<lparr>getName = ''Particle'', getId = None\<rparr>"

text \<open>A base object with an element, and a billboard on a 32 by 24 host.\<close>

definition button :: base_object where
  "button = \<lparr>element = Some (Element 1), events = Map.empty, handlerCalls = []\<rparr>"

definition vector_component :: render_component where
  "vector_component = \<lparr>componentName = ''vector'', componentClass = RenderClass\<rparr>"

definition hosted_billboard :: billboard2d where
  "hosted_billboard =
     (snd (Billboard2D_constructor ''draw'' vector_component None Billboard2D_prototype))
       \<lparr>gameObject :=
          Some \<lparr>boundingBox = \<lparr>rect_x = 0, rect_y = 0, rect_w = 32, rect_h = 24\<rparr>,
                origin = \<lparr>point_x = 0, point_y = 0\<rparr>\<rparr>\<rparr>"

definition good_pass :: draw_env where
  "good_pass =
     \<lparr>baseExecute = True, snapshotUrl = ''data:image/png'', drawImageThrows = False,
      engineDebugMode = False\<rparr>"

definition skipped_pass :: draw_env where
  "skipped_pass =
     \<lparr>baseExecute = False, snapshotUrl = ''data:image/png'', drawImageThrows = False,
      engineDebugMode = False\<rparr>"

definition failing_blit :: draw_env where
  "failing_blit =
     \<lparr>baseExecute = True, snapshotUrl = ''data:image/png'', drawImageThrows = True,
      engineDebugMode = False\<rparr>"

definition cached_billboard :: billboard2d where
  "cached_billboard = snd (execute good_pass hosted_billboard)"

section \<open>Running the engine functions\<close>

text \<open>
  The definitions that a symbolic run of an engine function unfolds. The proofs below
  run a function forwards, one \<open>let\<close> at a time, after fixing the cases its branches
  depend on.
\<close>

lemmas engine_exec = Let_def now_def emit_def console_def getDefaultContext_def doMetrics_def
  setTimeout_def clearTimeout_def

lemma forEachTimer_trace:
  "forEachTimer m ps s = s\<lparr>trace := trace s @ map (\<lambda>p. m (fst p) (snd p)) ps\<rparr>"
  by (induction ps arbitrary: s) (simp_all add: emit_def)

lemma drainCallbacks_eq:
  "drainCallbacks s =
     s\<lparr>shutdownCallbacks := [], trace := trace s @ map CallbackInvoked (shutdownCallbacks s)\<rparr>"
proof (induction "shutdownCallbacks s" arbitrary: s)
  case Nil
  then show ?case by (simp add: drainCallbacks.simps [of s])
next
  case (Cons fn rest)
  from Cons(2) have q: "shutdownCallbacks s = fn # rest" by simp
  have "rest = shutdownCallbacks (emit (CallbackInvoked fn) (s\<lparr>shutdownCallbacks := rest\<rparr>))"
    by (simp add: emit_def)
  from Cons(1) [OF this] show ?case
    by (simp add: drainCallbacks.simps [of s] q emit_def)
qed

lemma filter_callbacks [simp]:
  "filter is_callback_or_cancel (map CallbackInvoked cbs) = map CallbackInvoked cbs"
  by (induction cbs) simp_all

lemma filter_cancels [simp]:
  "filter is_callback_or_cancel (map (\<lambda>p. TimerCancel (fst p) (snd p)) ps) =
     map (\<lambda>p. TimerCancel (fst p) (snd p)) ps"
  by (induction ps) simp_all

subsection \<open>One tick of the world timer\<close>

lemma tick_frameTime:
  assumes "\<not> shuttingDown s" and "running s \<or> stepOne s = 1"
  shows "frameTime (engineTimer clk s) =
         (if stepOne s = 1 then clk (clockReads s) - pauseTime s
          else clk (Suc (clockReads s)) - clk (clockReads s))"
  using assms
  by (cases "stepOne s = 1"; cases "defaultContext s"; cases "metricsLoaded s";
      cases "nativeAnimationFrame s")
     (simp_all add: engineTimer_def engineTimer_frame_def engine_exec
        cong: let_weak_cong prod.case_cong_weak)

lemma tick_droppedFrames:
  assumes "\<not> shuttingDown s" and "running s \<or> stepOne s = 1"
  shows "droppedFrames (engineTimer clk s) =
           jsadd (droppedFrames s)
             (if fpsClock s - frameTime (engineTimer clk s) \<le> 0
              then round_quotient ((fpsClock s - frameTime (engineTimer clk s)) * - 1) (fpsClock s)
              else Num 0)"
  using assms
  by (cases "stepOne s = 1"; cases "defaultContext s"; cases "metricsLoaded s";
      cases "nativeAnimationFrame s")
     (simp_all add: engineTimer_def engineTimer_frame_def engine_exec
        cong: let_weak_cong prod.case_cong_weak)

lemma tick_timeouts:
  assumes "\<not> shuttingDown s" and "running s \<or> stepOne s = 1"
  shows "timeouts (engineTimer clk s) =
         (if stepOne s = 1 \<or> nativeAnimationFrame s then timeouts s
          else timeouts s @
            [(nextHandle s, EngineTimerCall,
              if skipFrames s
              then (if fpsClock s - frameTime (engineTimer clk s) > 0
                    then fpsClock s - frameTime (engineTimer clk s) else fpsClock s)
              else fpsClock s)])"
  using assms
  by (cases "stepOne s = 1"; cases "defaultContext s"; cases "metricsLoaded s";
      cases "nativeAnimationFrame s")
     (simp_all add: engineTimer_def engineTimer_frame_def engine_exec
        cong: let_weak_cong prod.case_cong_weak)

lemma running_engine_tick:
  "frameTime (engineTimer slow_frame_clock running_engine) = 40
   \<and> timeouts (engineTimer slow_frame_clock running_engine) = [(0, EngineTimerCall, 16)]
   \<and> droppedFrames (engineTimer slow_frame_clock running_engine) = Num 2"
  by (simp add: running_engine_def R_Engine_def slow_frame_clock_def engineTimer_def
        engineTimer_frame_def engine_exec round_quotient_def Math_round_def
        cong: let_weak_cong prod.case_cong_weak)

subsection \<open>The parts of shutdown\<close>

lemma shutdown_begin_eq:
  "shutdown_begin s =
     s\<lparr>started := False,
       trace := trace s @ [Console WARN ''>>> Engine shutting down...''],
       timeouts := filter (\<lambda>t. Some (fst t) \<noteq> globalTimer s) (timeouts s)\<rparr>"
  by (simp add: shutdown_begin_def engine_exec cong: let_weak_cong)

lemma shutdown_finish_trace:
  "trace (shutdown_finish clk s) =
     trace s @ (if metricDisplay s then [MetricDisplayRemove] else [])
       @ [Console DEBUG ''>>> Cancelling all timers'']
       @ map (\<lambda>p. TimerCancel (fst p) (snd p)) (timerPool s)
       @ [Console WARN ''>>> Engine stopped.  Runtime: '', Console WARN ''>>>   frames generated: '']
       @ (case defaultContext s of
            None \<Rightarrow> [DocumentContextCreate, ContextDestroy DocumentContext]
          | Some c \<Rightarrow> [ContextDestroy c])
       @ [ObjectPoolDump]
       @ (if livingObjects s = 0 then []
          else [Console WARN ''Object references were not cleaned up!''])"
  by (cases "metricDisplay s"; cases "defaultContext s"; cases "livingObjects s = 0")
     (simp_all add: shutdown_finish_def forEachTimer_trace AssertWarn_def engine_exec
        cong: let_weak_cong prod.case_cong_weak)

lemma shutdown_finish_fields:
  "timerPool (shutdown_finish clk s) = []
   \<and> shutdownCallbacks (shutdown_finish clk s) = shutdownCallbacks s
   \<and> started (shutdown_finish clk s) = started s
   \<and> \<not> running (shutdown_finish clk s)
   \<and> \<not> shuttingDown (shutdown_finish clk s)
   \<and> defaultContext (shutdown_finish clk s) = None
   \<and> downTime (shutdown_finish clk s) = clk (clockReads s)"
  by (cases "metricDisplay s"; cases "defaultContext s"; cases "livingObjects s = 0")
     (simp_all add: shutdown_finish_def forEachTimer_trace AssertWarn_def engine_exec
        cong: let_weak_cong prod.case_cong_weak)

lemma shutdown_teardown:
  assumes "\<not> shuttingDown s" and "running s \<or> \<not> started s"
  shows "shutdown clk s =
           shutdown_finish clk (drainCallbacks (shutdown_begin (s\<lparr>shuttingDown := True\<rparr>)))"
  using assms by (auto simp add: shutdown_def Let_def)

lemma shutdown_ignored: "shuttingDown s \<Longrightarrow> shutdown clk s = s"
  by (simp add: shutdown_def)

lemma shutdown_deferred:
  assumes "\<not> shuttingDown s" and "\<not> running s" and "started s"
  shows "shutdown clk s =
           s\<lparr>shuttingDown := True, running := True,
             timeouts := timeouts s @ [(nextHandle s, ShutdownCall, fpsClock s * 2)],
             nextHandle := Suc (nextHandle s)\<rparr>"
  using assms by (simp add: shutdown_def engine_exec cong: let_weak_cong)

lemma paused_engine_fields:
  "started paused_engine" "\<not> running paused_engine" "\<not> shuttingDown paused_engine"
  "shutdownCallbacks paused_engine = [Callback 1]"
  "timerPool paused_engine = [(''blink'', Timer 1)]"
  "timeouts paused_engine = []" "nextHandle paused_engine = 1" "fpsClock paused_engine = 16"
  "defaultContext paused_engine = Some DocumentContext"
  by (simp_all add: paused_engine_def pause_def run_def addTimer_def onShutdown_def startup_def
        browserSupportCheck_def Assert_def R_Engine_def session_clock_def engineTimer_def
        engineTimer_frame_def forEachTimer_trace engine_exec
        cong: let_weak_cong prod.case_cong_weak)

subsection \<open>The example billboard\<close>

lemma hosted_billboard_fields:
  "mode hosted_billboard = Some REDRAW" "gameObject hosted_billboard \<noteq> None"
  by (simp_all add: hosted_billboard_def Billboard2D_constructor_def Billboard2D_prototype_def
        vector_component_def Assert_def renderCall_def Let_def)

lemma cached_billboard_fields:
  "mode cached_billboard = Some NORMAL"
  "gameObject cached_billboard =
     Some \<lparr>boundingBox = \<lparr>rect_x = 0, rect_y = 0, rect_w = 32, rect_h = 24\<rparr>,
           origin = \<lparr>point_x = 0, point_y = 0\<rparr>\<rparr>"
  by (simp_all add: cached_billboard_def hosted_billboard_def good_pass_def execute_def
        Billboard2D_constructor_def Billboard2D_prototype_def vector_component_def
        Assert_def renderCall_def Let_def)

section \<open>The claims\<close>

subsection \<open>C1: a tick over budget under the skip-frames policy\<close>

text \<open>
  C1, as the code has it. A tick renders a frame when the engine is not shutting down
  and is running or single-stepping. When such a tick runs under the skip-frames policy
  and measures a \<^verbatim>\<open>frameTime\<close> above \<^verbatim>\<open>fpsClock\<close>, \<^verbatim>\<open>droppedFrames\<close> grows by exactly
  \<^verbatim>\<open>Math.round((frameTime - fpsClock) / fpsClock)\<close>, and the next tick is not scheduled
  sooner: a tick that reschedules by timeout does so with the full delay \<^verbatim>\<open>fpsClock\<close>,
  and a single-stepped tick or one that uses the native animation frame adds no timeout.
  The measured \<^verbatim>\<open>frameTime\<close> is the time between the two clock readings around the
  traversal (from \<^verbatim>\<open>_pauseTime\<close> when stepping).
\<close>

theorem engineTimer_over_budget:
  assumes "\<not> shuttingDown s" and "running s \<or> stepOne s = 1" and "skipFrames s"
    and "fpsClock s < frameTime (engineTimer clk s)"
  shows "droppedFrames (engineTimer clk s) =
           jsadd (droppedFrames s)
             (round_quotient (frameTime (engineTimer clk s) - fpsClock s) (fpsClock s))
       \<and> timeouts (engineTimer clk s) =
           (if stepOne s = 1 \<or> nativeAnimationFrame s then timeouts s
            else timeouts s @ [(nextHandle s, EngineTimerCall, fpsClock s)])
       \<and> frameTime (engineTimer clk s) =
           (if stepOne s = 1 then clk (clockReads s) - pauseTime s
            else clk (Suc (clockReads s)) - clk (clockReads s))"
proof -
  let ?ft = "frameTime (engineTimer clk s)"
  have f: "\<not> 0 < fpsClock s - ?ft" "fpsClock s - ?ft \<le> 0"
    "(fpsClock s - ?ft) * - 1 = ?ft - fpsClock s"
    using assms(4) by simp_all
  have d: "droppedFrames (engineTimer clk s) =
             jsadd (droppedFrames s) (round_quotient (?ft - fpsClock s) (fpsClock s))"
    using tick_droppedFrames [OF assms(1,2), of clk] by (simp only: f if_True)
  have t: "timeouts (engineTimer clk s) =
             (if stepOne s = 1 \<or> nativeAnimationFrame s then timeouts s
              else timeouts s @ [(nextHandle s, EngineTimerCall, fpsClock s)])"
    using tick_timeouts [OF assms(1,2), of clk] by (simp only: f assms(3) if_True if_False)
  from d t tick_frameTime [OF assms(1,2), of clk] show ?thesis by blast
qed

text \<open>
  The theorem at the scenario of the specification: a running engine at 16 ms per
  frame whose traversal costs 40 ms drops \<^verbatim>\<open>Math.round(24 / 16) = 2\<close> frames, and the next
  tick waits 16 ms.
\<close>

theorem engineTimer_over_budget_witness:
  "\<not> shuttingDown running_engine \<and> running running_engine \<and> skipFrames running_engine
   \<and> fpsClock running_engine = 16
   \<and> frameTime (engineTimer slow_frame_clock running_engine) = 40
   \<and> droppedFrames (engineTimer slow_frame_clock running_engine) = Num 2
   \<and> timeouts (engineTimer slow_frame_clock running_engine) = [(0, EngineTimerCall, 16)]"
proof -
  have pre: "\<not> shuttingDown running_engine" "running running_engine \<or> stepOne running_engine = 1"
    "skipFrames running_engine" "fpsClock running_engine = 16" "running running_engine"
    by (simp_all add: running_engine_def R_Engine_def)
  have ft: "frameTime (engineTimer slow_frame_clock running_engine) = 40"
    using tick_frameTime [OF pre(1,2), of slow_frame_clock]
    by (simp add: running_engine_def R_Engine_def slow_frame_clock_def)
  have over: "fpsClock running_engine < frameTime (engineTimer slow_frame_clock running_engine)"
    by (simp add: ft pre(4))
  have init: "droppedFrames running_engine = Num 0" "timeouts running_engine = []"
    "nextHandle running_engine = 0" "stepOne running_engine = 0"
    "\<not> nativeAnimationFrame running_engine"
    by (simp_all add: running_engine_def R_Engine_def)
  have r: "round_quotient 24 16 = Num 2"
    by (simp add: round_quotient_def Math_round_def)
  show ?thesis
    using engineTimer_over_budget [OF pre(1,2,3) over] pre(1,3,4,5)
    by (simp add: ft init r)
qed

text \<open>
  C1 as stated fails: in the same scenario the delay of the next tick is 16 ms, which
  is not smaller than \<^verbatim>\<open>fpsClock\<close>.
\<close>

theorem engineTimer_delay_not_smaller:
  "skipFrames running_engine
   \<and> fpsClock running_engine < frameTime (engineTimer slow_frame_clock running_engine)
   \<and> timeouts (engineTimer slow_frame_clock running_engine) = [(0, EngineTimerCall, 16)]
   \<and> \<not> snd (snd (last (timeouts (engineTimer slow_frame_clock running_engine))))
        < fpsClock running_engine"
proof -
  have "skipFrames running_engine" "fpsClock running_engine = 16"
    by (simp_all add: running_engine_def R_Engine_def)
  then show ?thesis using running_engine_tick by simp
qed

subsection \<open>C2: shutdown of a paused engine\<close>

text \<open>
  C2 at a paused engine with one shutdown callback and one pooled timer. The first
  \<^verbatim>\<open>shutdown()\<close> sets \<^verbatim>\<open>shuttingDown\<close> and \<^verbatim>\<open>running\<close> and queues a second \<^verbatim>\<open>shutdown()\<close>
  after \<^verbatim>\<open>fpsClock * 2 = 32\<close> ms. When the browser runs that call it returns at its first
  line, because \<^verbatim>\<open>shuttingDown\<close> is already set: the engine stays started and shutting
  down, the callback is still queued, the timer is still pooled, the default context is
  still there, and nothing was called.
\<close>

theorem shutdown_while_paused_never_tears_down:
  "started paused_engine \<and> \<not> running paused_engine \<and> \<not> shuttingDown paused_engine
   \<and> running (shutdown session_clock paused_engine)
   \<and> timeouts (shutdown session_clock paused_engine) = [(1, ShutdownCall, 32)]
   \<and> fire session_clock 1 (shutdown session_clock paused_engine)
       = (shutdown session_clock paused_engine)\<lparr>timeouts := []\<rparr>
   \<and> started (fire session_clock 1 (shutdown session_clock paused_engine))
   \<and> shuttingDown (fire session_clock 1 (shutdown session_clock paused_engine))
   \<and> shutdownCallbacks (fire session_clock 1 (shutdown session_clock paused_engine))
       = [Callback 1]
   \<and> timerPool (fire session_clock 1 (shutdown session_clock paused_engine))
       = [(''blink'', Timer 1)]
   \<and> defaultContext (fire session_clock 1 (shutdown session_clock paused_engine))
       = Some DocumentContext
   \<and> trace (fire session_clock 1 (shutdown session_clock paused_engine)) = trace paused_engine"
proof -
  have sd: "shutdown session_clock paused_engine =
      paused_engine\<lparr>shuttingDown := True, running := True,
        timeouts := [(1, ShutdownCall, 32)], nextHandle := Suc 1\<rparr>"
    using shutdown_deferred [of paused_engine session_clock]
    by (simp add: paused_engine_fields)
  have fr: "fire session_clock 1 (shutdown session_clock paused_engine) =
      (shutdown session_clock paused_engine)\<lparr>timeouts := []\<rparr>"
    unfolding sd by (simp add: fire_def shutdown_ignored)
  show ?thesis
    unfolding fr unfolding sd by (simp add: paused_engine_fields)
qed

subsection \<open>C3: removing an event\<close>

text \<open>
  C3, as the code has it. For an owner that is not \<^verbatim>\<open>null\<close> and any event type, on an
  object that has an element, \<^verbatim>\<open>removeEvent(owner, type)\<close> deletes the entry under
  \<^verbatim>\<open>owner.getName() + "," + type\<close>, whether or not a handler was found, and touches no
  other entry; on an object without an element it changes nothing.
\<close>

theorem removeEvent_owner_deletes:
  "(element b \<noteq> None \<longrightarrow>
      events (removeEvent (Some owner) evType b) (owner @ '','' @ evType) = None
      \<and> (\<forall>k. k \<noteq> owner @ '','' @ evType \<longrightarrow>
             events (removeEvent (Some owner) evType b) k = events b k))
   \<and> (element b = None \<longrightarrow> removeEvent (Some owner) evType b = b)"
  by (auto simp add: removeEvent_def getElement_def handlerCall_def Let_def split: option.split)

text \<open>
  The theorem on a button: the entry that \<^verbatim>\<open>addEvent\<close> stored for the owner named
  \<^verbatim>\<open>player\<close> is gone after \<^verbatim>\<open>removeEvent\<close>, and removing an event that was never added
  leaves no entry either.
\<close>

theorem removeEvent_owner_deletes_witness:
  "element (addEvent (Some ''player'') ''click'' Undefined (Function 1) button) \<noteq> None
   \<and> events (addEvent (Some ''player'') ''click'' Undefined (Function 1) button) ''player,click''
       = Some (Function 1)
   \<and> events (removeEvent (Some ''player'') ''click''
               (addEvent (Some ''player'') ''click'' Undefined (Function 1) button)) ''player,click''
       = None
   \<and> events (removeEvent (Some ''player'') ''keydown'' button) ''player,keydown'' = None"
  using removeEvent_owner_deletes
      [of "addEvent (Some ''player'') ''click'' Undefined (Function 1) button" "''player''" "''click''"]
    removeEvent_owner_deletes [of button "''player''" "''keydown''"]
  by (simp add: addEvent_def getElement_def button_def handlerCall_def Let_def)

text \<open>
  C3 as stated fails for the \<^verbatim>\<open>null\<close> owner: the entry that
  \<^verbatim>\<open>addEvent(null, "click", ...)\<close> stored under \<^verbatim>\<open>"document,click"\<close> is still a key of
  the dictionary after \<^verbatim>\<open>removeEvent(null, "click")\<close>. It also fails behind the guard
  on the element: once the element of the button is unset, \<^verbatim>\<open>removeEvent\<close> of the owner
  named \<^verbatim>\<open>player\<close> leaves that owner's entry where it was.
\<close>

theorem removeEvent_global_keeps_entry:
  "events (addEvent None ''click'' Undefined (Function 1) button) ''document,click''
     = Some Undefined
   \<and> ''document,click'' \<in> dom (events (removeEvent None ''click''
                                 (addEvent None ''click'' Undefined (Function 1) button)))
   \<and> events (removeEvent (Some ''player'') ''click''
               (setElement None
                  (addEvent (Some ''player'') ''click'' Undefined (Function 1) button)))
        ''player,click'' = Some (Function 1)"
  by (simp add: removeEvent_def addEvent_def setElement_def getElement_def button_def
        handlerCall_def Let_def dom_def)

subsection \<open>C4: creating an object while the engine shuts down\<close>

text \<open>
  C4, as the code has it. While \<^verbatim>\<open>shuttingDown\<close> is true, \<^verbatim>\<open>create(obj)\<close> logs a warning,
  calls \<^verbatim>\<open>obj.destroy()\<close> once and returns \<^verbatim>\<open>null\<close>. It writes neither \<^verbatim>\<open>idRef\<close> nor
  \<^verbatim>\<open>livingObjects\<close> itself: the destructor receives the engine with both counters as
  they were, and after the call the engine is the one the destructor left.
\<close>

theorem create_while_shutting_down:
  assumes "shuttingDown s"
  shows "create obj_destroy obj s =
           (Return None,
            obj_destroy (console WARN
              ''Engine shutting down, object destroyed because it would create an orphaned reference'' s))
       \<and> idRef (console WARN
              ''Engine shutting down, object destroyed because it would create an orphaned reference'' s)
           = idRef s
       \<and> livingObjects (console WARN
              ''Engine shutting down, object destroyed because it would create an orphaned reference'' s)
           = livingObjects s"
  using assms by (simp add: create_def console_def emit_def)

text \<open>
  The theorem for an object whose destructor leaves the engine alone: both counters
  are unchanged.
\<close>

theorem create_while_shutting_down_witness:
  "shuttingDown stopping_engine
   \<and> fst (create (\<lambda>s. s) late_object stopping_engine) = Return None
   \<and> idRef (snd (create (\<lambda>s. s) late_object stopping_engine)) = idRef stopping_engine
   \<and> livingObjects (snd (create (\<lambda>s. s) late_object stopping_engine))
       = livingObjects stopping_engine"
proof -
  have sd: "shuttingDown stopping_engine"
    by (simp add: stopping_engine_def R_Engine_def)
  show ?thesis
    using create_while_shutting_down [OF sd, of "\<lambda>s. s" late_object] sd by simp
qed

text \<open>
  C4 as stated fails for an object whose destructor reports to the engine with
  \<^verbatim>\<open>R.Engine.destroy(this)\<close>: \<^verbatim>\<open>create\<close> returns \<^verbatim>\<open>null\<close> and the live-object count goes
  from 3 to 2, for an object that was never counted.
\<close>

theorem create_while_shutting_down_changes_count:
  "shuttingDown stopping_engine
   \<and> fst (create (reporting_destructor late_object) late_object stopping_engine) = Return None
   \<and> livingObjects stopping_engine = 3
   \<and> livingObjects (snd (create (reporting_destructor late_object) late_object stopping_engine))
       = 2"
  by (simp add: create_def reporting_destructor_def destroy_def stopping_engine_def R_Engine_def
        console_def emit_def Let_def)

subsection \<open>C5: shutdown callbacks run before the timers are cancelled\<close>

text \<open>
  C5. Take an engine that is not shutting down and is running or not started, so that
  \<^verbatim>\<open>shutdown()\<close> performs its teardown. After \<^verbatim>\<open>onShutdown(cb1)\<close>, \<^verbatim>\<open>onShutdown(cb2)\<close> and
  \<^verbatim>\<open>shutdown()\<close>, the callback invocations and timer cancellations that the call made
  are, in this order: one invocation of each queued callback in registration order,
  \<^verbatim>\<open>cb1\<close> and \<^verbatim>\<open>cb2\<close> last, then one \<^verbatim>\<open>cancel\<close> per pooled timer. When the last callback
  has returned the pool still holds every timer; after the call the queue and the pool
  are empty.
\<close>

theorem shutdown_callbacks_before_timers:
  assumes "\<not> shuttingDown s" and "running s \<or> \<not> started s"
  shows "filter is_callback_or_cancel
           (drop (length (trace s)) (trace (shutdown clk (onShutdown cb2 (onShutdown cb1 s)))))
         = map CallbackInvoked (shutdownCallbacks s @ [cb1, cb2])
           @ map (\<lambda>p. TimerCancel (fst p) (snd p)) (timerPool s)
       \<and> timerPool (drainCallbacks (shutdown_begin
             (onShutdown cb2 (onShutdown cb1 s)\<lparr>shuttingDown := True\<rparr>))) = timerPool s
       \<and> shutdownCallbacks (shutdown clk (onShutdown cb2 (onShutdown cb1 s))) = []
       \<and> timerPool (shutdown clk (onShutdown cb2 (onShutdown cb1 s))) = []"
proof -
  let ?s2 = "onShutdown cb2 (onShutdown cb1 s)"
  have s2: "?s2 = s\<lparr>shutdownCallbacks := shutdownCallbacks s @ [cb1, cb2]\<rparr>"
    using assms(1) by (simp add: onShutdown_def)
  have pre: "\<not> shuttingDown ?s2" "running ?s2 \<or> \<not> started ?s2"
    using assms by (simp_all add: s2)
  let ?d = "drainCallbacks (shutdown_begin (?s2\<lparr>shuttingDown := True\<rparr>))"
  have d: "trace ?d = trace s @ [Console WARN ''>>> Engine shutting down...'']
              @ map CallbackInvoked (shutdownCallbacks s @ [cb1, cb2])"
    "timerPool ?d = timerPool s" "shutdownCallbacks ?d = []"
    by (simp_all add: s2 drainCallbacks_eq shutdown_begin_eq)
  have sd: "shutdown clk ?s2 = shutdown_finish clk ?d"
    by (rule shutdown_teardown [OF pre])
  show ?thesis
    unfolding sd
    by (simp add: shutdown_finish_trace shutdown_finish_fields d split: option.split)
qed

text \<open>
  The theorem on a running engine with two pooled timers and an empty queue: both
  callbacks, then both cancellations.
\<close>

theorem shutdown_callbacks_before_timers_witness:
  "\<not> shuttingDown busy_engine \<and> running busy_engine
   \<and> filter is_callback_or_cancel
        (drop (length (trace busy_engine))
           (trace (shutdown session_clock
                     (onShutdown (Callback 2) (onShutdown (Callback 1) busy_engine)))))
       = [CallbackInvoked (Callback 1), CallbackInvoked (Callback 2),
          TimerCancel ''blink'' (Timer 1), TimerCancel ''spawn'' (Timer 2)]
   \<and> timerPool (shutdown session_clock
                  (onShutdown (Callback 2) (onShutdown (Callback 1) busy_engine))) = []"
proof -
  have pre: "\<not> shuttingDown busy_engine" "running busy_engine \<or> \<not> started busy_engine"
    "running busy_engine" "shutdownCallbacks busy_engine = []"
    "timerPool busy_engine = [(''blink'', Timer 1), (''spawn'', Timer 2)]"
    by (simp_all add: busy_engine_def addTimer_def R_Engine_def)
  show ?thesis
    using shutdown_callbacks_before_timers
        [OF pre(1,2), where clk = session_clock and ?cb1.0 = "Callback 1"
          and ?cb2.0 = "Callback 2"]
      pre(1,3,4,5)
    by simp
qed

subsection \<open>C6: create, then destroy\<close>

text \<open>
  C6. On an engine that is started and not shutting down, \<^verbatim>\<open>create(obj)\<close> returns the
  identifier built from the name and the next \<^verbatim>\<open>idRef\<close> and counts the object, and a
  following \<^verbatim>\<open>destroy(obj)\<close> brings \<^verbatim>\<open>livingObjects\<close> back to its value before the
  \<^verbatim>\<open>create\<close> (whatever identifier the object holds by then). In every state
  \<^verbatim>\<open>destroy(null)\<close> logs a warning and changes nothing else, so the count stays.
\<close>

theorem create_then_destroy:
  "(started s \<and> \<not> shuttingDown s \<longrightarrow>
      fst (create obj_destroy obj s) = Return (Some (ObjectId (getName obj) (idRef s + 1)))
      \<and> livingObjects (snd (create obj_destroy obj s)) = livingObjects s + 1
      \<and> livingObjects (destroy (Some obj') (snd (create obj_destroy obj s))) = livingObjects s)
   \<and> destroy None s =
        s\<lparr>trace := trace s @ [Console WARN ''NULL reference passed to Engine.destroy()!  Ignored.'']\<rparr>
   \<and> livingObjects (destroy None s) = livingObjects s"
  by (simp add: create_def destroy_def Assert_def console_def emit_def Let_def)

text \<open>
  The theorem on a started engine with three live objects: four after \<^verbatim>\<open>create\<close>,
  three again after \<^verbatim>\<open>destroy\<close>, and three after \<^verbatim>\<open>destroy(null)\<close>.
\<close>

theorem create_then_destroy_witness:
  "started started_engine \<and> \<not> shuttingDown started_engine
   \<and> livingObjects started_engine = 3
   \<and> fst (create (\<lambda>s. s) late_object started_engine)
       = Return (Some (ObjectId ''Particle'' 8))
   \<and> livingObjects (snd (create (\<lambda>s. s) late_object started_engine)) = 4
   \<and> livingObjects
        (destroy (Some (late_object\<lparr>getId := Some (ObjectId ''Particle'' 8)\<rparr>))
           (snd (create (\<lambda>s. s) late_object started_engine))) = 3
   \<and> livingObjects (destroy None started_engine) = 3"
proof -
  have pre: "started started_engine" "\<not> shuttingDown started_engine"
    "livingObjects started_engine = 3" "idRef started_engine = 7"
    "getName late_object = ''Particle''"
    by (simp_all add: started_engine_def R_Engine_def late_object_def)
  show ?thesis
    using create_then_destroy [of started_engine "\<lambda>s. s" late_object
        "late_object\<lparr>getId := Some (ObjectId ''Particle'' 8)\<rparr>"] pre
    by simp
qed

subsection \<open>C7: the modes of a billboard\<close>

text \<open>
  C7, as the code has it. A billboard whose constructor returned has mode \<^verbatim>\<open>REDRAW\<close>.
  One \<^verbatim>\<open>execute\<close> in mode \<^verbatim>\<open>REDRAW\<close>, on a component with a host game object, whose
  inherited \<^verbatim>\<open>execute\<close> returned true, returns normally and leaves mode \<^verbatim>\<open>NORMAL\<close>; an
  \<^verbatim>\<open>execute\<close> whose inherited \<^verbatim>\<open>execute\<close> returned false returns at once and changes
  nothing. \<^verbatim>\<open>regenerate()\<close> sets the mode to \<^verbatim>\<open>REDRAW\<close> and \<^verbatim>\<open>hostRect\<close> to \<^verbatim>\<open>null\<close>.
\<close>

theorem billboard_mode_machine:
  "(fst (Billboard2D_constructor name rc priority b0) = Return () \<longrightarrow>
      mode (snd (Billboard2D_constructor name rc priority b0)) = Some REDRAW)
   \<and> (mode b = Some REDRAW \<and> baseExecute env \<and> gameObject b \<noteq> None \<longrightarrow>
        fst (execute env b) = Return () \<and> mode (snd (execute env b)) = Some NORMAL)
   \<and> (\<not> baseExecute env \<longrightarrow> execute env b = (Return (), b))
   \<and> mode (snd (regenerate b)) = Some REDRAW
   \<and> hostRect (snd (regenerate b)) = None"
  by (cases "billboard b"; cases "drawImageThrows env"; cases "engineDebugMode env")
     (auto simp add: Billboard2D_constructor_def execute_def regenerate_def renderCall_def
        Assert_def Let_def split: option.split)

text \<open>
  The theorem on a billboard built around a vector component: \<^verbatim>\<open>REDRAW\<close> after the
  constructor, \<^verbatim>\<open>NORMAL\<close> after one drawn pass, \<^verbatim>\<open>REDRAW\<close> and no cached rectangle after
  \<^verbatim>\<open>regenerate()\<close>.
\<close>

theorem billboard_mode_machine_witness:
  "fst (Billboard2D_constructor ''draw'' vector_component None Billboard2D_prototype) = Return ()
   \<and> mode (snd (Billboard2D_constructor ''draw'' vector_component None Billboard2D_prototype))
       = Some REDRAW
   \<and> mode hosted_billboard = Some REDRAW \<and> baseExecute good_pass
   \<and> fst (execute good_pass hosted_billboard) = Return ()
   \<and> mode (snd (execute good_pass hosted_billboard)) = Some NORMAL
   \<and> mode (snd (regenerate cached_billboard)) = Some REDRAW
   \<and> hostRect (snd (regenerate cached_billboard)) = None"
proof -
  have c: "fst (Billboard2D_constructor ''draw'' vector_component None Billboard2D_prototype)
             = Return ()"
    by (simp add: Billboard2D_constructor_def vector_component_def Assert_def Let_def)
  have g: "baseExecute good_pass" by (simp add: good_pass_def)
  note a = billboard_mode_machine [of "''draw''" vector_component None Billboard2D_prototype
      hosted_billboard good_pass]
  note r = billboard_mode_machine [of "''draw''" vector_component None Billboard2D_prototype
      cached_billboard good_pass]
  from a c have 1: "mode (snd (Billboard2D_constructor ''draw'' vector_component None
      Billboard2D_prototype)) = Some REDRAW" by blast
  from a g hosted_billboard_fields
  have 2: "fst (execute good_pass hosted_billboard) = Return ()
      \<and> mode (snd (execute good_pass hosted_billboard)) = Some NORMAL" by blast
  from r have 3: "mode (snd (regenerate cached_billboard)) = Some REDRAW
      \<and> hostRect (snd (regenerate cached_billboard)) = None" by blast
  from c 1 2 3 g hosted_billboard_fields(1) show ?thesis by blast
qed

text \<open>
  C7 as stated fails for an \<^verbatim>\<open>execute\<close> whose inherited \<^verbatim>\<open>execute\<close> returns false: the
  billboard is in mode \<^verbatim>\<open>REDRAW\<close> before the call and still is after it.
\<close>

theorem billboard_skipped_pass_stays_redraw:
  "mode hosted_billboard = Some REDRAW
   \<and> execute skipped_pass hosted_billboard = (Return (), hosted_billboard)
   \<and> mode (snd (execute skipped_pass hosted_billboard)) \<noteq> Some NORMAL"
  by (simp add: hosted_billboard_def skipped_pass_def execute_def Billboard2D_constructor_def
        Billboard2D_prototype_def vector_component_def Assert_def renderCall_def Let_def)

subsection \<open>C8: the frame rate\<close>

text \<open>
  C8. For every whole frame rate \<open>f > 0\<close>, \<^verbatim>\<open>setFPS(f)\<close> returns normally and
  \<^verbatim>\<open>getFrameTime()\<close> then returns \<open>\<lfloor>1000 / f\<rfloor>\<close>; \<^verbatim>\<open>setFPS(0)\<close> fails its assertion and
  leaves the engine, and so \<^verbatim>\<open>fpsClock\<close>, as it was.
\<close>

theorem setFPS_getFrameTime:
  "(0 < f \<longrightarrow> fst (setFPS f s) = Return ()
        \<and> getFrameTime (snd (setFPS f s)) = \<lfloor>1000 / real_of_int f\<rfloor>)
   \<and> setFPS 0 s = (Throw (AssertionError ''You cannot have a framerate of zero!''), s)
   \<and> fpsClock (snd (setFPS 0 s)) = fpsClock s"
  by (simp add: setFPS_def getFrameTime_def Assert_def Math_floor_def)

text \<open>The theorem at 60 frames per second: 16 ms per frame.\<close>

theorem setFPS_getFrameTime_witness:
  "(0::int) < 60 \<and> fst (setFPS 60 R_Engine) = Return ()
   \<and> getFrameTime (snd (setFPS 60 R_Engine)) = 16
   \<and> fst (setFPS 0 R_Engine) = Throw (AssertionError ''You cannot have a framerate of zero!'')"
  using setFPS_getFrameTime [of 60 R_Engine] by simp

subsection \<open>C9: a failing blit\<close>

text \<open>
  C9. In a draw pass in mode \<^verbatim>\<open>NORMAL\<close> (the inherited \<^verbatim>\<open>execute\<close> returned true and the
  component has a host) in which \<^verbatim>\<open>drawImage\<close> throws, \<^verbatim>\<open>execute\<close> returns normally. The
  calls it made are: create the point, move to the transform origin, the debug outline
  if the engine is in debug mode, restore the transform origin, destroy the point; no
  image was drawn and nothing else of the component changed.
\<close>

theorem execute_swallows_blit_failure:
  assumes "mode b = Some NORMAL" and "baseExecute env" and "gameObject b = Some host"
    and "drawImageThrows env"
  shows "execute env b =
           (Return (),
            b\<lparr>renderCalls := renderCalls b
                @ [PointCreate (origin host), TransformOrigin True]
                @ (if engineDebugMode env
                   then [SetLineStyle ''green'', DrawRectangle (boundingBox host)] else [])
                @ [TransformOrigin False, PointDestroy]\<rparr>)"
  using assms
  by (cases "billboard b"; cases "engineDebugMode env")
     (simp_all add: execute_def renderCall_def Let_def)

text \<open>The theorem on the billboard that has drawn once, with a failing blit.\<close>

theorem execute_swallows_blit_failure_witness:
  "mode cached_billboard = Some NORMAL \<and> baseExecute failing_blit \<and> drawImageThrows failing_blit
   \<and> execute failing_blit cached_billboard =
       (Return (),
        cached_billboard\<lparr>renderCalls := renderCalls cached_billboard
          @ [PointCreate \<lparr>point_x = 0, point_y = 0\<rparr>, TransformOrigin True,
             TransformOrigin False, PointDestroy]\<rparr>)"
proof -
  have e: "baseExecute failing_blit" "drawImageThrows failing_blit"
    "\<not> engineDebugMode failing_blit"
    by (simp_all add: failing_blit_def)
  show ?thesis
    using execute_swallows_blit_failure [OF cached_billboard_fields(1) e(1)
        cached_billboard_fields(2) e(2)] e cached_billboard_fields(1)
    by simp
qed

subsection \<open>C10: registering a callback while the engine shuts down\<close>

text \<open>
  C10. While \<^verbatim>\<open>shuttingDown\<close> is true, \<^verbatim>\<open>onShutdown(fn)\<close> returns the engine unchanged:
  \<^verbatim>\<open>fn\<close> is not queued and nothing is called or logged. The loop over the shutdown
  callbacks then invokes exactly the callbacks that were queued before, so \<^verbatim>\<open>fn\<close> is
  not run on account of this registration.
\<close>

theorem onShutdown_while_shutting_down:
  assumes "shuttingDown s"
  shows "onShutdown fn s = s
       \<and> trace (drainCallbacks (onShutdown fn s))
           = trace s @ map CallbackInvoked (shutdownCallbacks s)"
  using assms by (simp add: onShutdown_def drainCallbacks_eq)

text \<open>
  The theorem inside a shutdown with one queued callback: registering a second one
  leaves the queue as it was, and the loop invokes the first callback only.
\<close>

theorem onShutdown_while_shutting_down_witness:
  "shuttingDown draining_engine
   \<and> shutdownCallbacks draining_engine = [Callback 1]
   \<and> shutdownCallbacks (onShutdown (Callback 2) draining_engine) = [Callback 1]
   \<and> trace (drainCallbacks (onShutdown (Callback 2) draining_engine))
       = [Console WARN ''>>> Engine shutting down...'', CallbackInvoked (Callback 1)]"
proof -
  have pre: "shuttingDown draining_engine" "shutdownCallbacks draining_engine = [Callback 1]"
    "trace draining_engine = [Console WARN ''>>> Engine shutting down...'']"
    by (simp_all add: draining_engine_def shutdown_begin_eq R_Engine_def)
  note t = onShutdown_while_shutting_down [OF pre(1), of "Callback 2"]
  have q: "shutdownCallbacks (onShutdown (Callback 2) draining_engine) = [Callback 1]"
    by (simp only: conjunct1 [OF t] pre(2))
  have d: "trace (drainCallbacks (onShutdown (Callback 2) draining_engine))
             = [Console WARN ''>>> Engine shutting down...'', CallbackInvoked (Callback 1)]"
    by (simp add: conjunct2 [OF t] pre(2,3))
  from pre(1,2) q d show ?thesis by blast
qed

end
